theory Spec2Isabelle
  imports Main "HOL-Library.Signed_Division"
begin

section \<open>Data model of the service worker\<close>

text \<open>
  The in-memory \<^verbatim>\<open>state\<close> object of \<^verbatim>\<open>service_worker.js\<close>. The phase is the
  JavaScript string itself, so that the defensive branch of \<^verbatim>\<open>startNextPhase\<close> for an
  unknown phase is part of the model. Time stamps are epoch milliseconds, \<^verbatim>\<open>null\<close> is
  \<open>None\<close>. \<^verbatim>\<open>cycleCount\<close> is only ever assigned \<open>0\<close> or its predecessor plus one, so it
  is a natural number.
\<close>

record TimerState =
  phase :: string
  running :: bool
  startTime :: "int option"
  endTime :: "int option"
  remainingTime :: "int option"
  cycleCount :: nat

text \<open>The numeric settings (durations in minutes); the theme only concerns the pages.\<close>

record Settings =
  workDuration :: int
  shortBreakDuration :: int
  longBreakDuration :: int
  longBreakInterval :: int

definition DEFAULT_SETTINGS :: Settings where
  "DEFAULT_SETTINGS =
     \<lparr>workDuration = 25, shortBreakDuration = 5, longBreakDuration = 15, longBreakInterval = 4\<rparr>"

text \<open>
  An alarm registered with \<^verbatim>\<open>chrome.alarms.create\<close>: the \<^verbatim>\<open>when\<close> option and the
  optional repetition period.
\<close>

record Alarm =
  scheduledFor :: "int option"
  periodInMinutes :: "int option"

text \<open>
  The keys of \<^verbatim>\<open>chrome.storage.local\<close> that the statistics use. A date key
  \<^verbatim>\<open>YYYY-MM-DD\<close> is represented by the number of the day it denotes, counted from
  1970-01-01; a key that was never written is \<open>None\<close>.
\<close>

record Storage =
  stats :: "int \<rightharpoonup> nat"
  streak :: "nat option"
  lastStreakDate :: "int option"

text \<open>
  Everything the worker's handlers read and write: the \<^verbatim>\<open>state\<close> object, the alarms that
  are armed, the number of \<^verbatim>\<open>setTimeout\<close> callbacks (each a deferred call of
  \<^verbatim>\<open>startNextPhase\<close>) that have not run yet, and the storage.
\<close>

record World =
  state :: TimerState
  alarms :: "string \<rightharpoonup> Alarm"
  timeouts :: nat
  storage :: Storage

definition initial_state :: TimerState where
  "initial_state =
     \<lparr>phase = ''idle'', running = False, startTime = None, endTime = None,
      remainingTime = None, cycleCount = 0\<rparr>"

definition initial_storage :: Storage where
  "initial_storage = \<lparr>stats = Map.empty, streak = None, lastStreakDate = None\<rparr>"

definition initial_world :: World where
  "initial_world =
     \<lparr>state = initial_state, alarms = Map.empty, timeouts = 0, storage = initial_storage\<rparr>"

section \<open>JavaScript arithmetic used by the handlers\<close>

text \<open>\<^verbatim>\<open>null\<close> in a subtraction counts as \<open>0\<close>.\<close>

definition toNumber :: "int option \<Rightarrow> int" where
  "toNumber v = (case v of None \<Rightarrow> 0 | Some n \<Rightarrow> n)"

text \<open>
  The remainder operator \<^verbatim>\<open>%\<close> on integers: the sign follows the dividend, and a zero
  divisor gives \<^verbatim>\<open>NaN\<close>, here \<open>None\<close>.
\<close>

definition js_rem :: "int \<Rightarrow> int \<Rightarrow> int option" where
  "js_rem a b = (if b = 0 then None else Some (a smod b))"

section \<open>The timer operations\<close>

text \<open>
  \<^verbatim>\<open>scheduleAlarms\<close>: all alarms are cleared, then, if the timer is running, the one-shot
  end alarm and the repeating badge alarm are created. The callback of
  \<^verbatim>\<open>chrome.alarms.clearAll\<close> is run at once.
\<close>

definition scheduleAlarms :: "int \<Rightarrow> World \<Rightarrow> World" where
  "scheduleAlarms now w =
     (if \<not> running (state w) then w\<lparr>alarms := Map.empty\<rparr>
      else w\<lparr>alarms :=
        [''timerEnd'' \<mapsto> \<lparr>scheduledFor = endTime (state w), periodInMinutes = None\<rparr>,
         ''updateBadge'' \<mapsto> \<lparr>scheduledFor = Some (now + 1000), periodInMinutes = Some 1\<rparr>]\<rparr>)"

text \<open>\<^verbatim>\<open>resetTimer\<close>. The badge update and the broadcast only produce output.\<close>

definition resetTimer :: "World \<Rightarrow> World" where
  "resetTimer w =
     w\<lparr>state :=
         \<lparr>phase = ''idle'', running = False, startTime = None, endTime = None,
          remainingTime = None, cycleCount = 0\<rparr>,
       alarms := Map.empty\<rparr>"

text \<open>The tail of \<^verbatim>\<open>startNextPhase\<close> below the comment \<^verbatim>\<open>// Start the timer\<close>.\<close>

definition startTimer :: "int \<Rightarrow> int \<Rightarrow> World \<Rightarrow> World" where
  "startTimer now durationMinutes w =
     scheduleAlarms now
       (w\<lparr>state := (state w)
          \<lparr>running := True, startTime := Some now,
           endTime := Some (now + durationMinutes * 60 * 1000),
           remainingTime := None\<rparr>\<rparr>)"

text \<open>
  \<^verbatim>\<open>startNextPhase\<close>, with the clock reading and the settings it fetches as arguments.
\<close>

definition startNextPhase :: "int \<Rightarrow> Settings \<Rightarrow> World \<Rightarrow> World" where
  "startNextPhase now settings w =
     (let s = state w in
      if phase s = ''idle'' \<or> phase s = ''short_break'' \<or> phase s = ''long_break'' then
        startTimer now (workDuration settings) (w\<lparr>state := s\<lparr>phase := ''work''\<rparr>\<rparr>)
      else if phase s = ''work'' then
        (let c = cycleCount s + 1 in
         if js_rem (int c) (longBreakInterval settings) = Some 0 then
           startTimer now (longBreakDuration settings)
             (w\<lparr>state := s\<lparr>cycleCount := c, phase := ''long_break''\<rparr>\<rparr>)
         else
           startTimer now (shortBreakDuration settings)
             (w\<lparr>state := s\<lparr>cycleCount := c, phase := ''short_break''\<rparr>\<rparr>))
      else resetTimer w)"

text \<open>\<^verbatim>\<open>pauseTimer\<close>: \<^verbatim>\<open>endTime\<close> is read and not written.\<close>

definition pauseTimer :: "int \<Rightarrow> World \<Rightarrow> World" where
  "pauseTimer now w =
     (if \<not> running (state w) then w
      else w\<lparr>state := (state w)
               \<lparr>running := False,
                remainingTime := Some (max (toNumber (endTime (state w)) - now) 0)\<rparr>,
             alarms := Map.empty\<rparr>)"

text \<open>\<^verbatim>\<open>resumeTimer\<close>.\<close>

definition resumeTimer :: "int \<Rightarrow> World \<Rightarrow> World" where
  "resumeTimer now w =
     (case remainingTime (state w) of
        None \<Rightarrow> w
      | Some r \<Rightarrow>
          if running (state w) then w
          else scheduleAlarms now
                 (w\<lparr>state := (state w)
                    \<lparr>running := True, startTime := Some now, endTime := Some (now + r),
                     remainingTime := None\<rparr>\<rparr>))"

text \<open>
  The time left as the popup computes it in \<^verbatim>\<open>updateUI\<close> from a state snapshot.
\<close>

definition msLeft :: "int \<Rightarrow> TimerState \<Rightarrow> int" where
  "msLeft now s =
     (if running s then toNumber (endTime s) - now
      else case remainingTime s of Some r \<Rightarrow> r | None \<Rightarrow> 0)"

section \<open>Dates\<close>

text \<open>
  The host's time zone, as the two offsets (in milliseconds) that the \<^verbatim>\<open>Date\<close> methods
  use: \<open>utcOffset z t\<close> is the offset in force at the instant \<open>t\<close>, by which
  \<^verbatim>\<open>getDate\<close> reads local fields, and \<open>localOffset z l\<close> is the offset by which
  \<^verbatim>\<open>setDate\<close> turns the local time value \<open>l\<close> back into an instant.
\<close>

record Zone =
  utcOffset :: "int \<Rightarrow> int"
  localOffset :: "int \<Rightarrow> int"

definition msPerDay :: int where
  "msPerDay = 86400000"

text \<open>\<^verbatim>\<open>new Date(dateKey)\<close>: a date-only string is midnight UTC of that day.\<close>

definition parseDateKey :: "int \<Rightarrow> int" where
  "parseDateKey dateKey = dateKey * msPerDay"

text \<open>\<^verbatim>\<open>d.toISOString().split('T')[0]\<close>: the UTC day of the instant.\<close>

definition isoDateKey :: "int \<Rightarrow> int" where
  "isoDateKey t = t div msPerDay"

text \<open>
  \<^verbatim>\<open>d.setDate(d.getDate() + delta)\<close> on a \<^verbatim>\<open>Date\<close> holding the instant \<open>t\<close>: the local
  day of the month is moved by \<open>delta\<close> days, the local time of day is kept, and the result
  is converted back to an instant.
\<close>

definition shiftLocalDate :: "Zone \<Rightarrow> int \<Rightarrow> int \<Rightarrow> int" where
  "shiftLocalDate z t delta =
     (let localTime = t + utcOffset z t;
          newDate = localTime + delta * msPerDay
      in newDate - localOffset z newDate)"

text \<open>A zone whose clocks never change: \<open>offset\<close> milliseconds ahead of UTC.\<close>

definition fixedZone :: "int \<Rightarrow> Zone" where
  "fixedZone offset = \<lparr>utcOffset = (\<lambda>t. offset), localOffset = (\<lambda>l. offset)\<rparr>"

text \<open>
  Europe/Berlin during 2024: one hour ahead of UTC, two hours between 2024-03-31 01:00 UTC
  and 2024-10-27 01:00 UTC.
\<close>

definition berlin2024 :: Zone where
  "berlin2024 =
     \<lparr>utcOffset = (\<lambda>t. if 1711846800000 \<le> t \<and> t < 1729990800000 then 7200000 else 3600000),
      localOffset =
        (\<lambda>l. if 1711846800000 + 7200000 \<le> l \<and> l < 1729990800000 + 7200000
              then 7200000 else 3600000)\<rparr>"

section \<open>Statistics\<close>

text \<open>\<^verbatim>\<open>stats[key] || 0\<close>.\<close>

definition countOf :: "(int \<rightharpoonup> nat) \<Rightarrow> int \<Rightarrow> nat" where
  "countOf st key = (case st key of None \<Rightarrow> 0 | Some n \<Rightarrow> n)"

text \<open>\<^verbatim>\<open>streakData.streak || 0\<close>.\<close>

definition streakOf :: "Storage \<Rightarrow> nat" where
  "streakOf sto = (case streak sto of None \<Rightarrow> 0 | Some n \<Rightarrow> n)"

text \<open>The key \<^verbatim>\<open>yKey\<close> that \<^verbatim>\<open>incrementStat\<close> computes for the day before.\<close>

definition yesterdayKey :: "Zone \<Rightarrow> int \<Rightarrow> int" where
  "yesterdayKey z dateKey = isoDateKey (shiftLocalDate z (parseDateKey dateKey) (- 1))"

text \<open>\<^verbatim>\<open>incrementStat\<close>.\<close>

definition incrementStat :: "Zone \<Rightarrow> int \<Rightarrow> Storage \<Rightarrow> Storage" where
  "incrementStat z dateKey sto =
     (let stats' = (stats sto)(dateKey \<mapsto> countOf (stats sto) dateKey + 1);
          streak0 = streakOf sto;
          streak' =
            (case lastStreakDate sto of
               Some lastDate \<Rightarrow>
                 if lastDate = yesterdayKey z dateKey then streak0 + 1
                 else if lastDate \<noteq> dateKey then 1
                 else streak0
             | None \<Rightarrow> 1)
      in sto\<lparr>stats := stats', streak := Some streak', lastStreakDate := Some dateKey\<rparr>)"

text \<open>\<^verbatim>\<open>clearStats\<close>.\<close>

definition clearStats :: "Storage \<Rightarrow> Storage" where
  "clearStats sto = sto\<lparr>stats := Map.empty, streak := None, lastStreakDate := None\<rparr>"

text \<open>
  The loop of \<^verbatim>\<open>computeStatsSummary\<close> from index \<open>i\<close> on. Both \<^verbatim>\<open>new Date()\<close> of one
  iteration read the same instant \<open>now\<close>.
\<close>

function weekLoop :: "Zone \<Rightarrow> int \<Rightarrow> (int \<rightharpoonup> nat) \<Rightarrow> nat \<Rightarrow> nat \<Rightarrow> nat" where
  "weekLoop z now st i weekCount =
     (if i < 7 then
        weekLoop z now st (i + 1)
          (weekCount + countOf st (isoDateKey (shiftLocalDate z now (- int i))))
      else weekCount)"
  by pat_completeness auto
termination
  by (relation "measure (\<lambda>(z, now, st, i, weekCount). 7 - i)") auto

declare weekLoop.simps [simp del]

record StatsSummary =
  today :: nat
  week :: nat
  streakDays :: nat

text \<open>\<^verbatim>\<open>computeStatsSummary\<close>, the answer to the \<^verbatim>\<open>getStats\<close> command.\<close>

definition computeStatsSummary :: "Zone \<Rightarrow> int \<Rightarrow> Storage \<Rightarrow> StatsSummary" where
  "computeStatsSummary z now sto =
     \<lparr>today = countOf (stats sto) (isoDateKey now),
      week = weekLoop z now (stats sto) 0 0,
      streakDays = streakOf sto\<rparr>"

section \<open>Handlers and events\<close>

text \<open>The commands of the message listener that act on the timer.\<close>

datatype command = Start | Pause | Resume | Reset

definition onMessage :: "int \<Rightarrow> Settings \<Rightarrow> command \<Rightarrow> World \<Rightarrow> World" where
  "onMessage now settings c w =
     (case c of
        Start \<Rightarrow> startNextPhase now settings w
      | Pause \<Rightarrow> pauseTimer now w
      | Resume \<Rightarrow> resumeTimer now w
      | Reset \<Rightarrow> resetTimer w)"

text \<open>
  The alarm listener. On \<^verbatim>\<open>timerEnd\<close> the statistics are updated when a work phase
  ends, the timer stops, and \<^verbatim>\<open>setTimeout\<close> registers one more deferred
  \<^verbatim>\<open>startNextPhase\<close>.
\<close>

definition onAlarm :: "Zone \<Rightarrow> int \<Rightarrow> string \<Rightarrow> World \<Rightarrow> World" where
  "onAlarm z now name w =
     (if name = ''timerEnd'' then
        (let sto = (if phase (state w) = ''work''
                    then incrementStat z (isoDateKey now) (storage w) else storage w)
         in w\<lparr>storage := sto,
              state := (state w)\<lparr>running := False, remainingTime := None\<rparr>,
              timeouts := timeouts w + 1\<rparr>)
      else w)"

text \<open>
  What the browser can deliver to the worker: a command, an alarm that is armed (a
  one-shot alarm is removed as it fires), or a timeout that is pending.
\<close>

datatype event = Message command | AlarmFired string | TimeoutFired

definition deliver :: "Zone \<Rightarrow> int \<Rightarrow> Settings \<Rightarrow> event \<Rightarrow> World \<Rightarrow> World option" where
  "deliver z now settings ev w =
     (case ev of
        Message c \<Rightarrow> Some (onMessage now settings c w)
      | AlarmFired name \<Rightarrow>
          (case alarms w name of
             None \<Rightarrow> None
           | Some a \<Rightarrow>
               Some (onAlarm z now name
                 (if periodInMinutes a = None then w\<lparr>alarms := (alarms w)(name := None)\<rparr>
                  else w)))
      | TimeoutFired \<Rightarrow>
          (if timeouts w = 0 then None
           else Some (startNextPhase now settings (w\<lparr>timeouts := timeouts w - 1\<rparr>))))"

text \<open>A sequence of events, each with the clock reading and the stored settings.\<close>

fun run :: "Zone \<Rightarrow> (int \<times> Settings \<times> event) list \<Rightarrow> World \<Rightarrow> World option" where
  "run z [] w = Some w"
| "run z ((now, settings, ev) # rest) w =
     (case deliver z now settings ev w of None \<Rightarrow> None | Some w' \<Rightarrow> run z rest w')"

text \<open>A sequence of commands from the popup.\<close>

fun run_calls :: "(int \<times> Settings \<times> command) list \<Rightarrow> World \<Rightarrow> World" where
  "run_calls [] w = w"
| "run_calls ((now, settings, c) # rest) w = run_calls rest (onMessage now settings c w)"

section \<open>The invariant of the timer state\<close>

text \<open>
  The three descriptions of a timer state: idle, with no time stamp pending; running in a
  work or break phase towards an end time; paused in a work or break phase with the
  remaining time recorded. The invariant asks for exactly one of them.
\<close>

definition idle_state :: "TimerState \<Rightarrow> bool" where
  "idle_state s \<longleftrightarrow>
     phase s = ''idle'' \<and> \<not> running s \<and> endTime s = None \<and> remainingTime s = None"

definition timed_phase :: "string \<Rightarrow> bool" where
  "timed_phase p \<longleftrightarrow> p = ''work'' \<or> p = ''short_break'' \<or> p = ''long_break''"

definition running_with_endTime :: "TimerState \<Rightarrow> bool" where
  "running_with_endTime s \<longleftrightarrow>
     timed_phase (phase s) \<and> running s \<and> endTime s \<noteq> None \<and> remainingTime s = None"

definition paused_with_remainingTime :: "TimerState \<Rightarrow> bool" where
  "paused_with_remainingTime s \<longleftrightarrow>
     timed_phase (phase s) \<and> \<not> running s \<and> remainingTime s \<noteq> None"

definition exactly_one_of :: "TimerState \<Rightarrow> bool" where
  "exactly_one_of s \<longleftrightarrow>
     (idle_state s \<and> \<not> running_with_endTime s \<and> \<not> paused_with_remainingTime s) \<or>
     (\<not> idle_state s \<and> running_with_endTime s \<and> \<not> paused_with_remainingTime s) \<or>
     (\<not> idle_state s \<and> \<not> running_with_endTime s \<and> paused_with_remainingTime s)"

section \<open>Sample configurations\<close>

text \<open>A work phase started at instant \<open>0\<close> with the default settings, from the initial state.\<close>

definition running_work_world :: World where
  "running_work_world = startNextPhase 0 DEFAULT_SETTINGS initial_world"

text \<open>The same work phase, paused one minute later.\<close>

definition paused_work_world :: World where
  "paused_work_world = pauseTimer 60000 running_work_world"

text \<open>
  A work phase runs to its end, the end alarm fires, and a reset command arrives 200 ms
  later, before the deferred start is due.
\<close>

definition reset_in_delay_window :: "(int \<times> Settings \<times> event) list" where
  "reset_in_delay_window =
     [(0, DEFAULT_SETTINGS, Message Start),
      (1500000, DEFAULT_SETTINGS, AlarmFired ''timerEnd''),
      (1500200, DEFAULT_SETTINGS, Message Reset)]"

text \<open>
  A streak of three days whose last day is 2024-10-27 (day 20023), with one session on
  that day.
\<close>

definition streak_of_three :: Storage where
  "streak_of_three = \<lparr>stats = [20023 \<mapsto> 1], streak = Some 3, lastStreakDate = Some 20023\<rparr>"

text \<open>A ledger with one session on 2024-10-27 and five on 2024-10-21 (day 20017).\<close>

definition sample_ledger :: Storage where
  "sample_ledger =
     \<lparr>stats = [20023 \<mapsto> 1, 20017 \<mapsto> 5], streak = Some 1, lastStreakDate = Some 20023\<rparr>"

section \<open>Auxiliary facts\<close>

lemma js_rem_zero_iff: "js_rem a b = Some 0 \<longleftrightarrow> b \<noteq> 0 \<and> b dvd a"
  by (auto simp: js_rem_def smod_int_alt_def sgn_if dvd_eq_mod_eq_0 [symmetric])

lemma state_scheduleAlarms [simp]: "state (scheduleAlarms now w) = state w"
  by (simp add: scheduleAlarms_def)

lemma state_startTimer:
  "state (startTimer now d w) =
     (state w)\<lparr>running := True, startTime := Some now, endTime := Some (now + d * 60 * 1000),
       remainingTime := None\<rparr>"
  by (simp add: startTimer_def)

lemma state_resetTimer: "state (resetTimer w) = initial_state"
  by (simp add: resetTimer_def initial_state_def)

lemma state_running_work_world:
  "state running_work_world =
     \<lparr>phase = ''work'', running = True, startTime = Some 0, endTime = Some 1500000,
      remainingTime = None, cycleCount = 0\<rparr>"
  by (simp add: running_work_world_def startNextPhase_def Let_def state_startTimer
      initial_world_def initial_state_def DEFAULT_SETTINGS_def)

lemma state_paused_work_world:
  "state paused_work_world =
     \<lparr>phase = ''work'', running = False, startTime = Some 0, endTime = Some 1500000,
      remainingTime = Some 1440000, cycleCount = 0\<rparr>"
  by (simp add: paused_work_world_def pauseTimer_def state_running_work_world toNumber_def)

section \<open>The invariant holds after every command\<close>

lemma exactly_one_of_iff:
  "exactly_one_of s \<longleftrightarrow> idle_state s \<or> running_with_endTime s \<or> paused_with_remainingTime s"
  by (auto simp: exactly_one_of_def idle_state_def running_with_endTime_def
      paused_with_remainingTime_def timed_phase_def)

lemma startNextPhase_preserves:
  "exactly_one_of (state w) \<Longrightarrow> exactly_one_of (state (startNextPhase now cfg w))"
  by (auto simp: exactly_one_of_iff startNextPhase_def Let_def state_startTimer state_resetTimer
      initial_state_def idle_state_def running_with_endTime_def paused_with_remainingTime_def
      timed_phase_def)

lemma pauseTimer_preserves:
  "exactly_one_of (state w) \<Longrightarrow> exactly_one_of (state (pauseTimer now w))"
  by (auto simp: exactly_one_of_iff pauseTimer_def idle_state_def running_with_endTime_def
      paused_with_remainingTime_def)

lemma resumeTimer_preserves:
  "exactly_one_of (state w) \<Longrightarrow> exactly_one_of (state (resumeTimer now w))"
  by (auto simp: exactly_one_of_iff resumeTimer_def idle_state_def running_with_endTime_def
      paused_with_remainingTime_def split: option.splits)

lemma resetTimer_exactly_one: "exactly_one_of (state (resetTimer w))"
  by (simp add: exactly_one_of_iff state_resetTimer initial_state_def idle_state_def)

lemma onMessage_preserves:
  "exactly_one_of (state w) \<Longrightarrow> exactly_one_of (state (onMessage now cfg c w))"
  by (cases c)
    (simp_all add: onMessage_def startNextPhase_preserves pauseTimer_preserves
      resumeTimer_preserves resetTimer_exactly_one)

lemma run_calls_preserves:
  "exactly_one_of (state w) \<Longrightarrow> exactly_one_of (state (run_calls calls w))"
proof (induction calls arbitrary: w)
  case Nil
  then show ?case by simp
next
  case (Cons call calls)
  obtain now cfg c where call: "call = (now, cfg, c)"
    by (cases call) auto
  from Cons.prems have "exactly_one_of (state (onMessage now cfg c w))"
    by (rule onMessage_preserves)
  then have "exactly_one_of (state (run_calls calls (onMessage now cfg c w)))"
    by (rule Cons.IH)
  with call show ?case by simp
qed

lemma initial_exactly_one: "exactly_one_of (state initial_world)"
  by (simp add: exactly_one_of_iff initial_world_def initial_state_def idle_state_def)

text \<open>
  C1. Take any finite sequence of start, pause and resume commands (reset commands may be
  mixed in as well), each with any clock reading and any settings, and apply it to the
  initial idle state. After each call, that is after the first \<open>n\<close> calls for every \<open>n\<close>,
  exactly one of idle, running with an end time, paused with a remaining time describes
  the timer state.
\<close>

theorem invariant_after_calls:
  "exactly_one_of (state (run_calls (take n calls) initial_world))"
  using initial_exactly_one by (rule run_calls_preserves)

theorem invariant_after_calls_witness:
  "exactly_one_of (state (run_calls (take 3
      [(0, DEFAULT_SETTINGS, Start), (60000, DEFAULT_SETTINGS, Pause),
       (90000, DEFAULT_SETTINGS, Resume), (120000, DEFAULT_SETTINGS, Start)]) initial_world))"
  by (rule invariant_after_calls)

section \<open>The transition rule\<close>

text \<open>
  C2. When \<^verbatim>\<open>startNextPhase\<close> runs with the phase \<^verbatim>\<open>work\<close>, the cycle count grows by one
  and the next phase is the long break exactly when the new count is divisible by the
  configured interval, otherwise the short break; from \<^verbatim>\<open>idle\<close>, \<^verbatim>\<open>short_break\<close> and
  \<^verbatim>\<open>long_break\<close> the next phase is \<^verbatim>\<open>work\<close>; for any other phase string the timer is
  reset to the idle state with no alarm armed.
\<close>

theorem startNextPhase_transition:
  "(phase (state w) = ''work'' \<longrightarrow>
      cycleCount (state (startNextPhase now cfg w)) = cycleCount (state w) + 1 \<and>
      phase (state (startNextPhase now cfg w)) =
        (if longBreakInterval cfg dvd int (cycleCount (state w) + 1)
         then ''long_break'' else ''short_break'')) \<and>
   (phase (state w) \<in> {''idle'', ''short_break'', ''long_break''} \<longrightarrow>
      phase (state (startNextPhase now cfg w)) = ''work'') \<and>
   (phase (state w) \<notin> {''work'', ''idle'', ''short_break'', ''long_break''} \<longrightarrow>
      state (startNextPhase now cfg w) =
        \<lparr>phase = ''idle'', running = False, startTime = None, endTime = None,
         remainingTime = None, cycleCount = 0\<rparr> \<and>
      alarms (startNextPhase now cfg w) = Map.empty)"
proof (intro conjI impI)
  assume work: "phase (state w) = ''work''"
  have nz: "longBreakInterval cfg dvd int (cycleCount (state w) + 1) \<Longrightarrow> longBreakInterval cfg \<noteq> 0"
    by auto
  show "cycleCount (state (startNextPhase now cfg w)) = cycleCount (state w) + 1"
    using work by (simp add: startNextPhase_def Let_def state_startTimer)
  show "phase (state (startNextPhase now cfg w)) =
        (if longBreakInterval cfg dvd int (cycleCount (state w) + 1)
         then ''long_break'' else ''short_break'')"
    using work nz by (simp add: startNextPhase_def Let_def state_startTimer js_rem_zero_iff del: of_nat_add of_nat_Suc)
next
  assume "phase (state w) \<in> {''idle'', ''short_break'', ''long_break''}"
  then show "phase (state (startNextPhase now cfg w)) = ''work''"
    by (auto simp: startNextPhase_def Let_def state_startTimer)
next
  assume other: "phase (state w) \<notin> {''work'', ''idle'', ''short_break'', ''long_break''}"
  then have "startNextPhase now cfg w = resetTimer w"
    by (simp add: startNextPhase_def Let_def)
  then show "state (startNextPhase now cfg w) =
        \<lparr>phase = ''idle'', running = False, startTime = None, endTime = None,
         remainingTime = None, cycleCount = 0\<rparr>"
    and "alarms (startNextPhase now cfg w) = Map.empty"
    by (simp_all add: resetTimer_def)
qed

theorem startNextPhase_transition_witness:
  "phase (state running_work_world) = ''work'' \<and>
   cycleCount (state (startNextPhase 1500500 DEFAULT_SETTINGS running_work_world)) = 1 \<and>
   phase (state (startNextPhase 1500500 DEFAULT_SETTINGS running_work_world)) = ''short_break'' \<and>
   phase (state initial_world) \<in> {''idle'', ''short_break'', ''long_break''} \<and>
   phase (state (startNextPhase 0 DEFAULT_SETTINGS initial_world)) = ''work'' \<and>
   phase (state (initial_world\<lparr>state := initial_state\<lparr>phase := ''done''\<rparr>\<rparr>))
     \<notin> {''work'', ''idle'', ''short_break'', ''long_break''} \<and>
   state (startNextPhase 0 DEFAULT_SETTINGS (initial_world\<lparr>state := initial_state\<lparr>phase := ''done''\<rparr>\<rparr>))
     = initial_state"
  using startNextPhase_transition [of running_work_world 1500500 DEFAULT_SETTINGS]
    startNextPhase_transition [of initial_world 0 DEFAULT_SETTINGS]
    startNextPhase_transition [of "initial_world\<lparr>state := initial_state\<lparr>phase := ''done''\<rparr>\<rparr>" 0 DEFAULT_SETTINGS]
  by (simp add: state_running_work_world initial_world_def initial_state_def DEFAULT_SETTINGS_def)

text \<open>
  C10. From a work phase that is paused, \<^verbatim>\<open>startNextPhase\<close> does not resume the work
  time: the cycle count grows by one, the remaining time is dropped and a break of full
  length begins at \<open>now\<close>, the long one if the new count is divisible by the interval,
  otherwise the short one.
\<close>

theorem start_from_paused_work:
  assumes "phase (state w) = ''work''" and "\<not> running (state w)"
    and "remainingTime (state w) = Some r"
  shows "state (startNextPhase now cfg w) =
    \<lparr>phase = (if longBreakInterval cfg dvd int (cycleCount (state w) + 1)
               then ''long_break'' else ''short_break''),
     running = True,
     startTime = Some now,
     endTime = Some (now +
       (if longBreakInterval cfg dvd int (cycleCount (state w) + 1)
        then longBreakDuration cfg else shortBreakDuration cfg) * 60 * 1000),
     remainingTime = None,
     cycleCount = cycleCount (state w) + 1\<rparr>"
proof -
  have nz: "longBreakInterval cfg dvd int (cycleCount (state w) + 1) \<Longrightarrow> longBreakInterval cfg \<noteq> 0"
    by auto
  show ?thesis
    using assms(1) nz
    by (simp add: startNextPhase_def Let_def state_startTimer js_rem_zero_iff
        del: of_nat_add of_nat_Suc)
qed

theorem start_from_paused_work_witness:
  "phase (state paused_work_world) = ''work'' \<and> \<not> running (state paused_work_world) \<and>
   remainingTime (state paused_work_world) = Some 1440000 \<and>
   state (startNextPhase 90000 DEFAULT_SETTINGS paused_work_world) =
     \<lparr>phase = ''short_break'', running = True, startTime = Some 90000,
      endTime = Some 390000, remainingTime = None, cycleCount = 1\<rparr>"
  using start_from_paused_work [of paused_work_world 1440000 90000 DEFAULT_SETTINGS]
  by (simp add: state_paused_work_world DEFAULT_SETTINGS_def)

section \<open>Start while the timer is running\<close>

text \<open>
  C3. A start command that arrives while the timer is running is not ignored, since
  \<^verbatim>\<open>startNextPhase\<close> never reads \<^verbatim>\<open>state.running\<close>: a second start 5 ms after the
  first one, during the running work phase, counts that unfinished work phase as a
  completed cycle and begins the short break, so the state is not left unchanged.
\<close>

theorem start_while_running_changes_state:
  "running (state running_work_world) \<and>
   state running_work_world =
     \<lparr>phase = ''work'', running = True, startTime = Some 0, endTime = Some 1500000,
      remainingTime = None, cycleCount = 0\<rparr> \<and>
   state (run_calls [(0, DEFAULT_SETTINGS, Start), (5, DEFAULT_SETTINGS, Start)] initial_world) =
     state (startNextPhase 5 DEFAULT_SETTINGS running_work_world) \<and>
   state (startNextPhase 5 DEFAULT_SETTINGS running_work_world) =
     \<lparr>phase = ''short_break'', running = True, startTime = Some 5, endTime = Some 300005,
      remainingTime = None, cycleCount = 1\<rparr>"
proof -
  have after: "state (startNextPhase 5 DEFAULT_SETTINGS running_work_world) =
     \<lparr>phase = ''short_break'', running = True, startTime = Some 5, endTime = Some 300005,
      remainingTime = None, cycleCount = 1\<rparr>"
    by (simp add: startNextPhase_def Let_def state_startTimer state_running_work_world
        js_rem_def DEFAULT_SETTINGS_def smod_int_alt_def)
  have calls: "run_calls [(0, DEFAULT_SETTINGS, Start), (5, DEFAULT_SETTINGS, Start)] initial_world =
     startNextPhase 5 DEFAULT_SETTINGS running_work_world"
    by (simp add: onMessage_def running_work_world_def)
  show ?thesis
    using after calls by (simp add: state_running_work_world)
qed

section \<open>Pause and resume\<close>

text \<open>
  C4, as stated, fails: pausing the running work phase leaves its end time in the state.
\<close>

theorem pause_clears_endTime_counterexample:
  "running (state running_work_world) \<and>
   endTime (state (pauseTimer 60000 running_work_world)) \<noteq> None"
  by (simp add: pauseTimer_def state_running_work_world)

text \<open>
  C4, amended. Pausing a running timer at \<open>now\<close> sets \<^verbatim>\<open>running\<close> to false and
  \<^verbatim>\<open>remainingTime\<close> to \<open>max (endTime - now) 0\<close>, clears every alarm and changes no other
  field: \<^verbatim>\<open>endTime\<close> keeps its value. Pausing a timer that is not running changes nothing.
\<close>

theorem pauseTimer_effect:
  "(running (state w) \<longrightarrow>
      state (pauseTimer now w) =
        (state w)\<lparr>running := False,
                  remainingTime := Some (max (toNumber (endTime (state w)) - now) 0)\<rparr> \<and>
      endTime (state (pauseTimer now w)) = endTime (state w) \<and>
      alarms (pauseTimer now w) = Map.empty) \<and>
   (\<not> running (state w) \<longrightarrow> pauseTimer now w = w)"
  by (simp add: pauseTimer_def)

theorem pauseTimer_effect_witness:
  "running (state running_work_world) \<and>
   remainingTime (state (pauseTimer 60000 running_work_world)) = Some 1440000 \<and>
   running (state (pauseTimer 60000 running_work_world)) = False \<and>
   endTime (state (pauseTimer 60000 running_work_world)) = Some 1500000 \<and>
   \<not> running (state initial_world) \<and>
   pauseTimer 60000 initial_world = initial_world"
  using pauseTimer_effect [of running_work_world 60000] pauseTimer_effect [of initial_world 60000]
  by (simp add: state_running_work_world toNumber_def initial_world_def initial_state_def)

text \<open>
  C5, as stated, fails: when the end alarm is late, so that \<open>now\<close> lies 250 ms after the
  end time, the time left is \<open>-250\<close> before the pause and \<open>0\<close> after the resume.
\<close>

theorem pause_resume_overdue_counterexample:
  "running (state running_work_world) \<and>
   msLeft 1500250 (state running_work_world) = - 250 \<and>
   running (state (resumeTimer 1500250 (pauseTimer 1500250 running_work_world))) \<and>
   msLeft 1500250 (state (resumeTimer 1500250 (pauseTimer 1500250 running_work_world))) = 0"
  by (simp add: msLeft_def resumeTimer_def pauseTimer_def state_running_work_world toNumber_def)

text \<open>
  C5, amended. For a running timer whose end time is not before \<open>now\<close>, a pause followed
  by a resume at the same instant \<open>now\<close> gives a running timer with the same end time and
  the same time left.
\<close>

theorem pause_resume_round_trip:
  assumes "running (state w)" and "now \<le> toNumber (endTime (state w))"
  shows "running (state (resumeTimer now (pauseTimer now w))) \<and>
    msLeft now (state (resumeTimer now (pauseTimer now w))) = msLeft now (state w) \<and>
    endTime (state (resumeTimer now (pauseTimer now w))) = Some (toNumber (endTime (state w)))"
  using assms by (simp add: msLeft_def resumeTimer_def pauseTimer_def toNumber_def)

theorem pause_resume_round_trip_witness:
  "running (state running_work_world) \<and>
   60000 \<le> toNumber (endTime (state running_work_world)) \<and>
   msLeft 60000 (state (resumeTimer 60000 (pauseTimer 60000 running_work_world))) = 1440000 \<and>
   msLeft 60000 (state running_work_world) = 1440000"
  using pause_resume_round_trip [of running_work_world 60000]
  by (simp add: state_running_work_world toNumber_def msLeft_def)

section \<open>Reset\<close>

text \<open>
  C6. From any state, \<^verbatim>\<open>resetTimer\<close> yields the idle state with all time stamps empty and
  a cycle count of zero, and leaves no alarm armed, so that no alarm registered before the
  reset can be delivered after it.
\<close>

theorem resetTimer_effect:
  "state (resetTimer w) =
     \<lparr>phase = ''idle'', running = False, startTime = None, endTime = None,
      remainingTime = None, cycleCount = 0\<rparr> \<and>
   alarms (resetTimer w) = Map.empty \<and>
   deliver z now cfg (AlarmFired name) (resetTimer w) = None"
  by (simp add: resetTimer_def deliver_def)

theorem resetTimer_effect_witness:
  "alarms running_work_world ''timerEnd'' =
     Some \<lparr>scheduledFor = Some 1500000, periodInMinutes = None\<rparr> \<and>
   state (resetTimer running_work_world) = initial_state \<and>
   deliver berlin2024 1500000 DEFAULT_SETTINGS (AlarmFired ''timerEnd'')
     (resetTimer running_work_world) = None"
  using resetTimer_effect [of running_work_world berlin2024 1500000 DEFAULT_SETTINGS "''timerEnd''"]
  by (simp add: initial_state_def running_work_world_def startNextPhase_def Let_def
      startTimer_def scheduleAlarms_def initial_world_def DEFAULT_SETTINGS_def)

text \<open>
  C7. A reset that arrives between the end of a phase and the deferred start leaves the
  timer idle, but the deferred start is still pending: when the timeout fires, 500 ms
  after the end alarm, \<^verbatim>\<open>startNextPhase\<close> runs on the idle state and a work phase begins.
\<close>

theorem reset_then_deferred_start:
  "map_option state (run berlin2024 reset_in_delay_window initial_world) = Some initial_state \<and>
   map_option state
     (run berlin2024 (reset_in_delay_window @ [(1500500, DEFAULT_SETTINGS, TimeoutFired)])
        initial_world) =
     Some \<lparr>phase = ''work'', running = True, startTime = Some 1500500,
            endTime = Some 3000500, remainingTime = None, cycleCount = 0\<rparr>"
  by (simp add: reset_in_delay_window_def deliver_def onMessage_def onAlarm_def
      startNextPhase_def Let_def startTimer_def scheduleAlarms_def resetTimer_def
      initial_world_def initial_state_def DEFAULT_SETTINGS_def)

section \<open>Statistics in a zone whose clocks never change\<close>

text \<open>
  With a fixed offset, moving the local date by whole days moves the instant by whole
  days, so the day before a date key is the key minus one, the streak follows the rule of
  consecutive days, and the week is the sum over today and the six days before.
\<close>

lemma shiftLocalDate_fixedZone:
  "shiftLocalDate (fixedZone offset) t delta = t + delta * msPerDay"
  by (simp add: shiftLocalDate_def fixedZone_def Let_def)

lemma isoDateKey_add_days: "isoDateKey (t + delta * msPerDay) = isoDateKey t + delta"
  by (simp add: isoDateKey_def msPerDay_def)

lemma yesterdayKey_fixedZone: "yesterdayKey (fixedZone offset) dateKey = dateKey - 1"
proof -
  have "isoDateKey (parseDateKey dateKey + (- 1) * msPerDay) = isoDateKey (parseDateKey dateKey) + (- 1)"
    by (rule isoDateKey_add_days)
  moreover have "isoDateKey (parseDateKey dateKey) = dateKey"
    by (simp add: isoDateKey_def parseDateKey_def msPerDay_def)
  ultimately show ?thesis
    by (simp add: yesterdayKey_def shiftLocalDate_fixedZone)
qed

lemma streak_rule_fixedZone:
  "streakOf (incrementStat (fixedZone offset) dateKey sto) =
     (case lastStreakDate sto of
        None \<Rightarrow> 1
      | Some lastDate \<Rightarrow>
          if lastDate = dateKey - 1 then streakOf sto + 1
          else if lastDate = dateKey then streakOf sto
          else 1)"
  and "lastStreakDate (incrementStat (fixedZone offset) dateKey sto) = Some dateKey"
  by (simp_all add: incrementStat_def Let_def yesterdayKey_fixedZone streakOf_def
      split: option.splits)

lemma weekLoop_fixedZone:
  "weekLoop (fixedZone offset) now st i weekCount =
     weekCount + (\<Sum>j = i..<7. countOf st (isoDateKey now - int j))"
proof (induction "fixedZone offset" now st i weekCount rule: weekLoop.induct)
  case (1 now st i weekCount)
  show ?case
  proof (cases "i < 7")
    case True
    have key: "isoDateKey (shiftLocalDate (fixedZone offset) now (- int i)) = isoDateKey now - int i"
      using isoDateKey_add_days [of now "- int i"] by (simp add: shiftLocalDate_fixedZone)
    have "weekLoop (fixedZone offset) now st i weekCount =
        weekLoop (fixedZone offset) now st (i + 1)
          (weekCount + countOf st (isoDateKey now - int i))"
      using True key by (subst weekLoop.simps) simp
    also have "\<dots> = weekCount + countOf st (isoDateKey now - int i) +
        (\<Sum>j = i + 1..<7. countOf st (isoDateKey now - int j))"
      using True key "1.hyps" by simp
    also have "\<dots> = weekCount + (\<Sum>j = i..<7. countOf st (isoDateKey now - int j))"
      using True by (simp add: sum.atLeast_Suc_lessThan)
    finally show ?thesis .
  next
    case False
    then show ?thesis
      by (subst weekLoop.simps) simp
  qed
qed

lemma week_fixedZone:
  "week (computeStatsSummary (fixedZone offset) now sto) =
     (\<Sum>j = 0..<7. countOf (stats sto) (isoDateKey now - int j))"
  and "today (computeStatsSummary (fixedZone offset) now sto) =
     countOf (stats sto) (isoDateKey now)"
  by (simp_all add: computeStatsSummary_def weekLoop_fixedZone)

section \<open>Statistics across a clock change\<close>

text \<open>
  Midnight UTC of 2024-10-28 is 01:00 in Berlin; the same local time one day earlier is
  still summer time and lies on 2024-10-26 in UTC.
\<close>

lemma yesterdayKey_berlin: "yesterdayKey berlin2024 20024 = 20022"
  by (simp add: yesterdayKey_def shiftLocalDate_def parseDateKey_def isoDateKey_def
      msPerDay_def berlin2024_def Let_def)

text \<open>
  C8. A work phase completes on 2024-10-28 (day 20024) on a host in Berlin, with a streak
  of three whose last day is 2024-10-27, the day before: the streak is not increased to
  four but set back to one.
\<close>

theorem streak_lost_after_clock_change:
  "lastStreakDate streak_of_three = Some (20024 - 1) \<and>
   streakOf streak_of_three = 3 \<and>
   streakOf (incrementStat berlin2024 20024 streak_of_three) = 1"
  by (simp add: incrementStat_def streakOf_def streak_of_three_def yesterdayKey_berlin Let_def)

text \<open>
  C9. On a host in Berlin at 2024-10-28 00:30 UTC (day 20024), the session of the day
  before is left out of the week and the five sessions of the day seven days before are
  counted: the week is five where the sum over today and the six days before is one.
\<close>

theorem week_after_clock_change:
  "isoDateKey 1730075400000 = 20024 \<and>
   countOf (stats sample_ledger) (20024 - 1) = 1 \<and>
   countOf (stats sample_ledger) (20024 - 7) = 5 \<and>
   week (computeStatsSummary berlin2024 1730075400000 sample_ledger) = 5"
  by (simp add: computeStatsSummary_def weekLoop.simps sample_ledger_def countOf_def
      isoDateKey_def shiftLocalDate_def msPerDay_def berlin2024_def Let_def)

end
